theory Spec2Isabelle
  imports Main "HOL-Library.Sublist" "HOL-Library.AList" "HOL-Library.Word"
begin

chapter \<open>web-browser-storage: MemoryStorage, CachedStorage and the pattern matcher\<close>

section \<open>Definitions\<close>

subsection \<open>JavaScript values and their JSON text\<close>

text \<open>
  The values that a caller hands to a storage: JSON values and \<open>undefined\<close>.
  \<open>JUndefined\<close> is JavaScript's \<open>undefined\<close>, \<open>JNull\<close> is \<open>null\<close>. A number is an integer
  from \<open>-2^53\<close> up to \<open>2^53 - 1\<close>, held as a signed word of 54 bits: these are numbers that
  JavaScript holds exactly and prints in decimal. A string is a sequence of code units
  below 256. An array is the list of its elements. An object is a plain object (its
  prototype is \<open>Object.prototype\<close>), given by the list of its own properties. The type has
  no dates, functions or cyclic objects: such values are not passed to the functions
  below.
\<close>

datatype jsvalue =
    JUndefined
  | JNull
  | JBool bool
  | JNum "54 word"
  | JStr string
  | JArr "jsvalue list"
  | JObj "(string \<times> jsvalue) list"

datatype error =
    InvalidPattern string
  | AlreadyStarted
  | NotStarted
  | MissingRequiredOption
  | MissingIdentity
  | TypeError
  | SyntaxError

definition hexDigit :: "nat \<Rightarrow> char" where
  "hexDigit d = (''0123456789abcdef'' ! (d mod 16))"

text \<open>The escapes \<open>JSON.stringify\<close> applies inside a string literal.\<close>

definition quoteChar :: "char \<Rightarrow> string" where
  "quoteChar c =
     (if c = CHR 0x22 then [CHR 0x5C, CHR 0x22]
      else if c = CHR 0x5C then [CHR 0x5C, CHR 0x5C]
      else if c = CHR 0x08 then [CHR 0x5C, CHR ''b'']
      else if c = CHR 0x0C then [CHR 0x5C, CHR ''f'']
      else if c = CHR 0x0A then [CHR 0x5C, CHR ''n'']
      else if c = CHR 0x0D then [CHR 0x5C, CHR ''r'']
      else if c = CHR 0x09 then [CHR 0x5C, CHR ''t'']
      else if of_char c < (32::nat)
        then [CHR 0x5C, CHR ''u'', CHR ''0'', CHR ''0'',
              hexDigit (of_char c div 16), hexDigit (of_char c)]
      else [c])"

definition quoteJSONString :: "string \<Rightarrow> string" where
  "quoteJSONString s = [CHR 0x22] @ concat (map quoteChar s) @ [CHR 0x22]"

fun showNat :: "nat \<Rightarrow> string" where
  "showNat n = (if n < 10 then [hexDigit n] else showNat (n div 10) @ [hexDigit (n mod 10)])"

declare showNat.simps [simp del]

definition showInt :: "int \<Rightarrow> string" where
  "showInt i = (if i < 0 then CHR ''-'' # showNat (nat (- i)) else showNat (nat i))"

fun commaSep :: "string list \<Rightarrow> string" where
  "commaSep [] = []"
| "commaSep [x] = x"
| "commaSep (x # y # ys) = x @ '','' @ commaSep (y # ys)"

text \<open>
  \<open>JSON.stringify(v)\<close>: \<open>None\<close> is the result \<open>undefined\<close> (no text at all), which only
  \<open>undefined\<close> itself gives here. Inside an array \<open>undefined\<close> prints as \<open>null\<close>; a
  property whose value is \<open>undefined\<close> is left out.
\<close>

fun stringify :: "jsvalue \<Rightarrow> string option" where
  "stringify JUndefined = None"
| "stringify JNull = Some ''null''"
| "stringify (JBool b) = Some (if b then ''true'' else ''false'')"
| "stringify (JNum n) = Some (showInt (sint n))"
| "stringify (JStr s) = Some (quoteJSONString s)"
| "stringify (JArr xs) =
     Some (''['' @ commaSep (map (\<lambda>x. case stringify x of None \<Rightarrow> ''null'' | Some t \<Rightarrow> t) xs)
           @ '']'')"
| "stringify (JObj kvs) =
     Some (''{'' @ commaSep (concat (map (\<lambda>kv. case stringify (snd kv) of None \<Rightarrow> []
                                   | Some t \<Rightarrow> [quoteJSONString (fst kv) @ '':'' @ t]) kvs))
           @ ''}'')"

text \<open>
  \<open>JSON.parse(JSON.stringify(v))\<close> for a \<open>v\<close> other than \<open>undefined\<close>, computed on the
  value: what the text loses is lost (an \<open>undefined\<close> array element comes back as \<open>null\<close>,
  an \<open>undefined\<close> property does not come back). The source calls it under the guard
  \<open>item !== undefined\<close> only.
\<close>

fun parseStringify :: "jsvalue \<Rightarrow> jsvalue" where
  "parseStringify (JArr xs) =
     JArr (map (\<lambda>x. if x = JUndefined then JNull else parseStringify x) xs)"
| "parseStringify (JObj kvs) =
     JObj (map (\<lambda>kv. (fst kv, parseStringify (snd kv)))
            (filter (\<lambda>kv. snd kv \<noteq> JUndefined) kvs))"
| "parseStringify v = v"

subsection \<open>matchesPattern.js\<close>

text \<open>\<open>String.prototype.indexOf\<close>, for a character and for a substring; \<open>-1\<close> when absent.\<close>

fun indexOfChar :: "string \<Rightarrow> char \<Rightarrow> int" where
  "indexOfChar [] c = - 1"
| "indexOfChar (x # xs) c =
     (if x = c then 0 else (let r = indexOfChar xs c in if r < 0 then - 1 else r + 1))"

fun indexOf :: "string \<Rightarrow> string \<Rightarrow> int" where
  "indexOf [] sub = (if sub = [] then 0 else - 1)"
| "indexOf (x # xs) sub =
     (if take (length sub) (x # xs) = sub then 0
      else (let r = indexOf xs sub in if r < 0 then - 1 else r + 1))"

text \<open>
  \<open>matchesPattern(string, pattern)\<close>. The thrown \<open>Error\<close> is \<open>Inl (InvalidPattern pattern)\<close>;
  \<open>pattern.slice(0, asteriskIndex)\<close> is \<open>take\<close>.
\<close>

definition matchesPattern :: "string \<Rightarrow> string \<Rightarrow> error + bool" where
  "matchesPattern string pattern =
     (let asteriskIndex = indexOfChar pattern (CHR ''*'') in
      if asteriskIndex \<ge> 0 then
        (if asteriskIndex \<noteq> int (length pattern) - 1 then Inl (InvalidPattern pattern)
         else Inr (indexOf string (take (nat asteriskIndex) pattern) = 0))
      else Inr (string = pattern))"

subsection \<open>MemoryStorage.js\<close>

text \<open>
  A listener is a JavaScript function, compared by reference: \<open>UserCallback n\<close> is the
  \<open>n\<close>-th function of the embedding application, \<open>ExternalChangeHandler n\<close> the closure
  that the \<open>n\<close>-th \<open>CachedStorage.start()\<close> creates. Calling a user callback is recorded
  (which function, with which argument); what such a callback does next is outside the
  model, so no callback writes to the store while it is being notified. The argument of
  a listener is a \<open>change\<close>; the type of its \<open>prevValue\<close> is left open, because a previous
  value is whatever \<open>get\<close> returned.
\<close>

datatype listener = UserCallback nat | ExternalChangeHandler nat

record 'p change =
  key :: string
  value' :: jsvalue
  prevValue :: 'p

type_synonym call = "listener \<times> jsvalue change"

record registration =
  storageId :: "string option"
  listener :: listener

text \<open>
  What all instances made by \<open>createSharedInstance\<close> share: the table \<open>_data\<close> of the root
  instance (own properties in insertion order; keys that name members of
  \<open>Object.prototype\<close> are outside the model, and so is the place that JavaScript gives
  to integer-like keys in the enumeration) and the array of listener registrations.
\<close>

record SharedStore =
  data :: "(string \<times> jsvalue) list"
  externalChangeListeners :: "registration list"

text \<open>
  One instance: its \<open>id\<close> (\<open>None\<close> is \<open>undefined\<close>) and its option
  \<open>stringifyStoredValues\<close> (\<open>False\<close> is the value \<open>false\<close>, \<open>True\<close> anything else, also
  the default \<open>undefined\<close>: the source tests \<open>!== false\<close>).
\<close>

record MemoryStorage =
  id' :: "string option"
  stringifyStoredValues :: bool

definition data_has :: "string \<Rightarrow> (string \<times> jsvalue) list \<Rightarrow> bool" where
  "data_has k d = (map_of d k \<noteq> None)"

definition data_get :: "string \<Rightarrow> (string \<times> jsvalue) list \<Rightarrow> jsvalue" where
  "data_get k d = (case map_of d k of None \<Rightarrow> JUndefined | Some v \<Rightarrow> v)"

definition MemoryStorage_new :: "string option \<Rightarrow> bool \<Rightarrow> MemoryStorage \<times> SharedStore" where
  "MemoryStorage_new i s =
     (\<lparr>id' = i, stringifyStoredValues = s\<rparr>, \<lparr>data = [], externalChangeListeners = []\<rparr>)"

definition createSharedInstance :: "MemoryStorage \<Rightarrow> string option \<Rightarrow> error + MemoryStorage" where
  "createSharedInstance this i =
     (case i of
        None \<Rightarrow> Inl MissingIdentity
      | Some n \<Rightarrow> if n = [] then Inl MissingIdentity
                  else Inr \<lparr>id' = Some n, stringifyStoredValues = stringifyStoredValues this\<rparr>)"

text \<open>The loop of \<open>triggerExternalChangeListeners\<close> over the registrations, in order.\<close>

fun notifyLoop :: "string \<Rightarrow> 'c \<Rightarrow> registration list \<Rightarrow> (listener \<times> 'c) list" where
  "notifyLoop this_id c [] = []"
| "notifyLoop this_id c (r # rs) =
     (case storageId r of
        None \<Rightarrow> notifyLoop this_id c rs
      | Some sid \<Rightarrow>
          if sid \<noteq> this_id then (listener r, c) # notifyLoop this_id c rs
          else notifyLoop this_id c rs)"

definition triggerExternalChangeListeners ::
  "MemoryStorage \<Rightarrow> SharedStore \<Rightarrow> 'c \<Rightarrow> (listener \<times> 'c) list" where
  "triggerExternalChangeListeners this s c =
     (case id' this of
        None \<Rightarrow> []
      | Some this_id \<Rightarrow> notifyLoop this_id c (externalChangeListeners s))"

definition MemoryStorage_has :: "MemoryStorage \<Rightarrow> SharedStore \<Rightarrow> string \<Rightarrow> bool" where
  "MemoryStorage_has this s k = data_has k (data s)"

definition MemoryStorage_get :: "MemoryStorage \<Rightarrow> SharedStore \<Rightarrow> string \<Rightarrow> jsvalue" where
  "MemoryStorage_get this s k =
     (if \<not> MemoryStorage_has this s k then JNull
      else (let item = data_get k (data s) in
            if stringifyStoredValues this \<noteq> False \<and> item \<noteq> JUndefined
            then parseStringify item
            else item))"

text \<open>\<open>set\<close> and \<open>delete\<close> return the store and the calls they made to listeners.\<close>

definition MemoryStorage_set ::
  "MemoryStorage \<Rightarrow> SharedStore \<Rightarrow> string \<Rightarrow> jsvalue \<Rightarrow> SharedStore \<times> call list" where
  "MemoryStorage_set this s k v =
     (let prev = MemoryStorage_get this s k;
          s' = s\<lparr>data := AList.update k v (data s)\<rparr>
      in (s', triggerExternalChangeListeners this s' \<lparr>key = k, value' = v, prevValue = prev\<rparr>))"

definition MemoryStorage_delete ::
  "MemoryStorage \<Rightarrow> SharedStore \<Rightarrow> string \<Rightarrow> SharedStore \<times> call list" where
  "MemoryStorage_delete this s k =
     (let prev = MemoryStorage_get this s k;
          s' = s\<lparr>data := AList.delete k (data s)\<rparr>
      in (s', triggerExternalChangeListeners this s' \<lparr>key = k, value' = JNull, prevValue = prev\<rparr>))"

definition MemoryStorage_keys :: "MemoryStorage \<Rightarrow> SharedStore \<Rightarrow> string list" where
  "MemoryStorage_keys this s = map fst (data s)"

text \<open>
  \<open>getRecordSize\<close>. \<open>JSON.stringify(value).length\<close> raises a \<open>TypeError\<close> when
  \<open>JSON.stringify\<close> returns \<open>undefined\<close>.
\<close>

definition stringifiedLength :: "jsvalue \<Rightarrow> error + nat" where
  "stringifiedLength v = (case stringify v of None \<Rightarrow> Inl TypeError | Some t \<Rightarrow> Inr (length t))"

text \<open>
  \<open>onExternalChange(listener)\<close> returns the store with the registration appended and the
  closure that unsubscribes.
\<close>

definition unsubscribe :: "listener \<Rightarrow> SharedStore \<Rightarrow> SharedStore" where
  "unsubscribe l s =
     s\<lparr>externalChangeListeners := filter (\<lambda>r. listener r \<noteq> l) (externalChangeListeners s)\<rparr>"

definition MemoryStorage_onExternalChange ::
  "MemoryStorage \<Rightarrow> SharedStore \<Rightarrow> listener \<Rightarrow> SharedStore \<times> (SharedStore \<Rightarrow> SharedStore)" where
  "MemoryStorage_onExternalChange this s l =
     (s\<lparr>externalChangeListeners :=
          externalChangeListeners s @ [\<lparr>storageId = id' this, listener = l\<rparr>]\<rparr>,
      unsubscribe l)"

subsection \<open>The collaborators of CachedStorage: timer and tab status watcher\<close>

text \<open>
  Modelled from the spec: the timer of the package \<open>web-browser-timer\<close>, which is not part
  of this repository. Its contract is \<open>now() -> timestamp\<close>,
  \<open>schedule(callback, delayMs) -> handle\<close>, \<open>cancel(handle) -> void\<close>; a scheduled callback
  fires once after the delay, and cancelling an unarmed handle does nothing. \<open>scheduled\<close>
  lists the armed callbacks as (handle, time due). The contract leaves the handle
  opaque; here handles are numbers, given out in turn from \<open>nextHandle\<close>, and the first
  handle of a timer is a parameter of \<open>Timer_new\<close> (the identifiers of \<open>setTimeout\<close> start
  at 1, another timer may start at 0). The only callback that \<open>CachedStorage\<close> schedules
  is its \<open>flush\<close>.
\<close>

record Timer =
  now :: nat
  scheduled :: "(nat \<times> nat) list"
  nextHandle :: nat

definition Timer_new :: "nat \<Rightarrow> nat \<Rightarrow> Timer" where
  "Timer_new t h = \<lparr>now = t, scheduled = [], nextHandle = h\<rparr>"

definition Timer_schedule :: "nat \<Rightarrow> Timer \<Rightarrow> Timer \<times> nat" where
  "Timer_schedule delay t =
     (t\<lparr>scheduled := scheduled t @ [(nextHandle t, now t + delay)],
        nextHandle := Suc (nextHandle t)\<rparr>,
      nextHandle t)"

definition Timer_cancel :: "nat \<Rightarrow> Timer \<Rightarrow> Timer" where
  "Timer_cancel h t = t\<lparr>scheduled := filter (\<lambda>e. fst e \<noteq> h) (scheduled t)\<rparr>"

text \<open>
  Modelled from the spec: the tab status watcher of the package \<open>web-browser-tab\<close>, which
  is not part of this repository. Its contract is \<open>start()\<close>, \<open>stop()\<close>,
  \<open>isActive() -> bool\<close>, \<open>onInactive(callback)\<close>; the callback that \<open>CachedStorage\<close> registers
  in its constructor is its \<open>flush\<close>.
\<close>

record TabStatusWatcher =
  active :: bool
  watching :: bool

definition isActive :: "TabStatusWatcher \<Rightarrow> bool" where
  "isActive t = active t"

subsection \<open>CachedStorage.js\<close>

text \<open>
  The fields of an instance. \<open>storage\<close> is the backend, here a \<open>MemoryStorage\<close> instance;
  \<open>flushTimer\<close> is the handle of the armed timer (\<open>None\<close> is \<open>undefined\<close>);
  \<open>cachedKeys\<close> is \<open>options.cachedKeys\<close> (\<open>None\<close> is \<open>undefined\<close>);
  \<open>stopListeningToExternalChanges\<close> holds the listener that the stored unsubscribe closure
  removes. The sink \<open>log\<close> is left out.
\<close>

record CachedStorage =
  storage :: MemoryStorage
  merge :: "(string \<Rightarrow> jsvalue \<Rightarrow> jsvalue \<Rightarrow> jsvalue) option"
  matchesPattern' :: "string \<Rightarrow> string \<Rightarrow> error + bool"
  flushDelay :: nat
  cachedKeys :: "string list option"
  cache :: "(string \<times> jsvalue) list"
  previouslyFlushedAt :: nat
  flushTimer :: "nat option"
  isStarted :: bool
  stopListeningToExternalChanges :: "listener option"

text \<open>
  The state that the methods of one \<open>CachedStorage\<close> act on: the instance, the store
  behind its backend, its timer, its tab status watcher, the calls made so far to user
  callbacks, and the number of handler closures created so far.
\<close>

record World =
  cachedStorage :: CachedStorage
  sharedStore :: SharedStore
  timer :: Timer
  tabStatusWatcher :: TabStatusWatcher
  notified :: "call list"
  handlersCreated :: nat

text \<open>The constructor: \<open>flushDelay\<close> is required, \<open>matchesPattern\<close> has a default.\<close>

definition CachedStorage_new ::
  "MemoryStorage \<Rightarrow> nat option \<Rightarrow> (string \<Rightarrow> jsvalue \<Rightarrow> jsvalue \<Rightarrow> jsvalue) option \<Rightarrow>
   (string \<Rightarrow> string \<Rightarrow> error + bool) option \<Rightarrow> string list option \<Rightarrow> error + CachedStorage" where
  "CachedStorage_new st delay mrg matcher keys =
     (case delay of
        None \<Rightarrow> Inl MissingRequiredOption
      | Some d \<Rightarrow>
          Inr \<lparr>storage = st, merge = mrg,
               matchesPattern' = (case matcher of None \<Rightarrow> matchesPattern | Some m \<Rightarrow> m),
               flushDelay = d, cachedKeys = keys, cache = [], previouslyFlushedAt = 0,
               flushTimer = None, isStarted = False, stopListeningToExternalChanges = None\<rparr>)"

text \<open>\<open>this.storage.set(key, value)\<close> and \<open>this.storage.delete(key)\<close>.\<close>

definition storage_set :: "string \<Rightarrow> jsvalue \<Rightarrow> World \<Rightarrow> World" where
  "storage_set k v w =
     (let r = MemoryStorage_set (storage (cachedStorage w)) (sharedStore w) k v
      in w\<lparr>sharedStore := fst r, notified := notified w @ snd r\<rparr>)"

definition storage_delete :: "string \<Rightarrow> World \<Rightarrow> World" where
  "storage_delete k w =
     (let r = MemoryStorage_delete (storage (cachedStorage w)) (sharedStore w) k
      in w\<lparr>sharedStore := fst r, notified := notified w @ snd r\<rparr>)"

text \<open>A handle is truthy unless it is \<open>undefined\<close> or the number 0.\<close>

definition truthy :: "nat option \<Rightarrow> bool" where
  "truthy h = (case h of None \<Rightarrow> False | Some n \<Rightarrow> n \<noteq> 0)"

text \<open>\<open>flush\<close>: the loop over \<open>Object.keys(this.cache)\<close>, then the rest of the method.\<close>

fun flushLoop :: "string list \<Rightarrow> World \<Rightarrow> World" where
  "flushLoop [] w = w"
| "flushLoop (k # ks) w =
     flushLoop ks (storage_set k (data_get k (cache (cachedStorage w))) w)"

definition flush :: "World \<Rightarrow> World" where
  "flush w =
     (let w1 = flushLoop (map fst (cache (cachedStorage w))) w;
          w2 = w1\<lparr>cachedStorage :=
                     (cachedStorage w1)\<lparr>cache := [], previouslyFlushedAt := now (timer w1)\<rparr>\<rparr>
      in if truthy (flushTimer (cachedStorage w2))
         then (case flushTimer (cachedStorage w2) of
                 None \<Rightarrow> w2
               | Some h \<Rightarrow> w2\<lparr>timer := Timer_cancel h (timer w2),
                               cachedStorage := (cachedStorage w2)\<lparr>flushTimer := None\<rparr>\<rparr>)
         else w2)"

definition cacheKey :: "string \<Rightarrow> World \<Rightarrow> World" where
  "cacheKey pattern w =
     w\<lparr>cachedStorage := (cachedStorage w)
         \<lparr>cachedKeys := Some ((case cachedKeys (cachedStorage w) of None \<Rightarrow> [] | Some ps \<Rightarrow> ps)
                               @ [pattern])\<rparr>\<rparr>"

text \<open>\<open>shouldCacheKey\<close>: the loop returns at the first match and raises with the matcher.\<close>

fun shouldCacheKeyLoop ::
  "(string \<Rightarrow> string \<Rightarrow> error + bool) \<Rightarrow> string \<Rightarrow> string list \<Rightarrow> error + bool" where
  "shouldCacheKeyLoop m k [] = Inr False"
| "shouldCacheKeyLoop m k (pattern # ps) =
     (case m k pattern of
        Inl e \<Rightarrow> Inl e
      | Inr b \<Rightarrow> if b then Inr True else shouldCacheKeyLoop m k ps)"

definition shouldCacheKey :: "CachedStorage \<Rightarrow> string \<Rightarrow> error + bool" where
  "shouldCacheKey this k =
     (case cachedKeys this of
        None \<Rightarrow> Inr False
      | Some ps \<Rightarrow> shouldCacheKeyLoop (matchesPattern' this) k ps)"

definition shouldCache :: "World \<Rightarrow> string \<Rightarrow> error + bool" where
  "shouldCache w k =
     (if \<not> isActive (tabStatusWatcher w) then Inr False
      else (case shouldCacheKey (cachedStorage w) k of
              Inl e \<Rightarrow> Inl e
            | Inr b \<Rightarrow> if \<not> b then Inr False else Inr True))"

definition scheduleFlush :: "World \<Rightarrow> World" where
  "scheduleFlush w =
     (if \<not> truthy (flushTimer (cachedStorage w))
      then (let r = Timer_schedule (flushDelay (cachedStorage w)) (timer w)
            in w\<lparr>timer := fst r, cachedStorage := (cachedStorage w)\<lparr>flushTimer := Some (snd r)\<rparr>\<rparr>)
      else w)"

definition CachedStorage_set :: "string \<Rightarrow> jsvalue \<Rightarrow> World \<Rightarrow> error + World" where
  "CachedStorage_set k v w =
     (if v = JUndefined then Inr (storage_delete k w)
      else (case shouldCache w k of
              Inl e \<Rightarrow> Inl e
            | Inr b \<Rightarrow>
                if b then
                  Inr (scheduleFlush
                        (w\<lparr>cachedStorage := (cachedStorage w)
                             \<lparr>cache := AList.update k v (cache (cachedStorage w))\<rparr>\<rparr>))
                else Inr (storage_set k v w)))"

definition CachedStorage_delete :: "string \<Rightarrow> World \<Rightarrow> World" where
  "CachedStorage_delete k w =
     storage_delete k
       (if data_has k (cache (cachedStorage w))
        then w\<lparr>cachedStorage := (cachedStorage w)
                 \<lparr>cache := AList.delete k (cache (cachedStorage w))\<rparr>\<rparr>
        else w)"

definition CachedStorage_keys :: "World \<Rightarrow> string list" where
  "CachedStorage_keys w = MemoryStorage_keys (storage (cachedStorage w)) (sharedStore w)"

definition CachedStorage_has :: "World \<Rightarrow> string \<Rightarrow> bool" where
  "CachedStorage_has w k =
     (data_has k (cache (cachedStorage w))
      \<or> MemoryStorage_has (storage (cachedStorage w)) (sharedStore w) k)"

definition CachedStorage_get :: "World \<Rightarrow> string \<Rightarrow> jsvalue" where
  "CachedStorage_get w k =
     (if data_has k (cache (cachedStorage w))
      then data_get k (cache (cachedStorage w))
      else MemoryStorage_get (storage (cachedStorage w)) (sharedStore w) k)"

definition CachedStorage_onExternalChange :: "listener \<Rightarrow> World \<Rightarrow> World" where
  "CachedStorage_onExternalChange l w =
     w\<lparr>sharedStore :=
         fst (MemoryStorage_onExternalChange (storage (cachedStorage w)) (sharedStore w) l)\<rparr>"


definition start :: "World \<Rightarrow> error + World" where
  "start w =
     (if isStarted (cachedStorage w) then Inl AlreadyStarted
      else (let l = ExternalChangeHandler (handlersCreated w)
            in Inr (w\<lparr>cachedStorage :=
                         (cachedStorage w)\<lparr>isStarted := True,
                                           stopListeningToExternalChanges := Some l\<rparr>,
                       tabStatusWatcher := (tabStatusWatcher w)\<lparr>watching := True\<rparr>,
                       sharedStore :=
                         fst (MemoryStorage_onExternalChange (storage (cachedStorage w))
                                (sharedStore w) l),
                       handlersCreated := Suc (handlersCreated w)\<rparr>)))"

subsection \<open>The scenarios of CachedStorage.test.js\<close>


text \<open>
  The test "should detect external data writes (with a merging strategy)", right before
  the external write: the instance is over the shared instance "1", its \<open>merge\<close>
  concatenates the two strings it gets for \<open>cached-key\<close>, and \<open>cached-key\<close> is buffered
  with the value \<open>One\<close> while the store holds \<open>Zero\<close>.
\<close>

definition testMerge :: "string \<Rightarrow> jsvalue \<Rightarrow> jsvalue \<Rightarrow> jsvalue" where
  "testMerge k prev v =
     (if k = ''cached-key''
      then (case (prev, v) of (JStr a, JStr b) \<Rightarrow> JStr (a @ b) | _ \<Rightarrow> JUndefined)
      else JUndefined)"

definition mergeTest :: World where
  "mergeTest =
     \<lparr>cachedStorage =
        \<lparr>storage = \<lparr>id' = Some ''1'', stringifyStoredValues = True\<rparr>, merge = Some testMerge,
         matchesPattern' = matchesPattern, flushDelay = 60000,
         cachedKeys = Some [''cached-*''], cache = [(''cached-key'', JStr ''One'')],
         previouslyFlushedAt = 0, flushTimer = Some 1, isStarted = True,
         stopListeningToExternalChanges = Some (ExternalChangeHandler 0)\<rparr>,
      sharedStore =
        \<lparr>data = [(''cached-key'', JStr ''Zero'')],
         externalChangeListeners =
           [\<lparr>storageId = Some ''1'', listener = ExternalChangeHandler 0\<rparr>]\<rparr>,
      timer = \<lparr>now = 0, scheduled = [(1, 60000)], nextHandle = 2\<rparr>,
      tabStatusWatcher = \<lparr>active = True, watching = True\<rparr>,
      notified = [], handlersCreated = 1\<rparr>"

subsection \<open>Plain objects as JavaScript evaluates them\<close>

text \<open>
  The table \<open>_data\<close> of a \<open>MemoryStorage\<close> and the buffer \<open>cache\<close> of a \<open>CachedStorage\<close>
  are plain objects made by \<open>{}\<close>. The definitions of the two classes above take such an
  object for the list of its own properties. That is what the code does with it as long
  as the keys are not names that \<open>Object.prototype\<close> gives to every object; the definitions
  from here on, marked \<open>_js\<close>, follow JavaScript at every key.

  An object has its own properties, in the order of their creation, and a prototype:
  \<open>Object.prototype\<close> at first, and after an assignment to \<open>__proto__\<close> nothing at all
  (\<open>null\<close>) or the object or array that was assigned.
\<close>

datatype prototype =
    ObjectPrototype
  | NoPrototype
  | ObjectValue "(string \<times> jsvalue) list"
  | ArrayValue "jsvalue list"

record jsobject =
  own :: "(string \<times> jsvalue) list"
  prototype :: prototype

definition emptyObject :: jsobject where
  "emptyObject = \<lparr>own = [], prototype = ObjectPrototype\<rparr>"

text \<open>
  What reading a property can give: a value of the kind that callers store, a built-in
  function inherited from a prototype, or the object \<open>Object.prototype\<close> itself.
\<close>

datatype jsread = Value jsvalue | NativeFunction string | ObjectPrototypeItself

text \<open>
  The string-keyed members of \<open>Object.prototype\<close> and of \<open>Array.prototype\<close> (ECMAScript
  2023, with the legacy members that browsers and Node.js have). All are functions,
  except the accessor \<open>__proto__\<close> of \<open>Object.prototype\<close>, which is treated apart, and
  \<open>length\<close>, which every array has of its own.
\<close>

definition objectPrototypeNames :: "string list" where
  "objectPrototypeNames =
     [''constructor'', ''__defineGetter__'', ''__defineSetter__'', ''hasOwnProperty'',
      ''__lookupGetter__'', ''__lookupSetter__'', ''isPrototypeOf'', ''propertyIsEnumerable'',
      ''toString'', ''valueOf'', ''toLocaleString'']"

definition arrayPrototypeNames :: "string list" where
  "arrayPrototypeNames =
     [''constructor'', ''at'', ''concat'', ''copyWithin'', ''fill'', ''find'', ''findIndex'',
      ''findLast'', ''findLastIndex'', ''lastIndexOf'', ''pop'', ''push'', ''reverse'', ''shift'',
      ''unshift'', ''slice'', ''sort'', ''splice'', ''includes'', ''indexOf'', ''join'', ''keys'',
      ''entries'', ''values'', ''forEach'', ''filter'', ''flat'', ''flatMap'', ''map'', ''every'',
      ''some'', ''reduce'', ''reduceRight'', ''toLocaleString'', ''toString'', ''toReversed'',
      ''toSorted'', ''toSpliced'', ''with'']"

text \<open>The getter of \<open>__proto__\<close> returns the prototype of the object it is read on.\<close>

definition prototypeValue :: "prototype \<Rightarrow> jsread" where
  "prototypeValue p =
     (case p of
        ObjectPrototype \<Rightarrow> ObjectPrototypeItself
      | NoPrototype \<Rightarrow> Value JNull
      | ObjectValue kvs \<Rightarrow> Value (JObj kvs)
      | ArrayValue xs \<Rightarrow> Value (JArr xs))"

definition fromObjectPrototype :: "prototype \<Rightarrow> string \<Rightarrow> jsread option" where
  "fromObjectPrototype p k =
     (if k = ''__proto__'' then Some (prototypeValue p)
      else if k \<in> set objectPrototypeNames then Some (NativeFunction k)
      else None)"

text \<open>An array has the property \<open>i\<close> for each index below its length, written in decimal.\<close>

definition arrayIndex :: "string \<Rightarrow> jsvalue list \<Rightarrow> nat option" where
  "arrayIndex k xs = find (\<lambda>i. showNat i = k) [0..<length xs]"

text \<open>
  The property \<open>k\<close> as the prototype chain gives it, \<open>None\<close> when the chain has none. An
  object or an array that serves as prototype has \<open>Object.prototype\<close> (for the array:
  \<open>Array.prototype\<close>, then \<open>Object.prototype\<close>) behind it.
\<close>

definition inherited :: "prototype \<Rightarrow> string \<Rightarrow> jsread option" where
  "inherited p k =
     (case p of
        NoPrototype \<Rightarrow> None
      | ObjectPrototype \<Rightarrow> fromObjectPrototype p k
      | ObjectValue kvs \<Rightarrow>
          (case map_of kvs k of
             Some v \<Rightarrow> Some (Value v)
           | None \<Rightarrow> fromObjectPrototype p k)
      | ArrayValue xs \<Rightarrow>
          (case arrayIndex k xs of
             Some i \<Rightarrow> Some (Value (xs ! i))
           | None \<Rightarrow>
               if k = ''length'' then Some (Value (JNum (of_nat (length xs))))
               else if k \<in> set arrayPrototypeNames then Some (NativeFunction k)
               else fromObjectPrototype p k))"

definition lookup :: "jsobject \<Rightarrow> string \<Rightarrow> jsread option" where
  "lookup obj k =
     (case map_of (own obj) k of
        Some v \<Rightarrow> Some (Value v)
      | None \<Rightarrow> inherited (prototype obj) k)"

text \<open>\<open>key in obj\<close> and \<open>obj[key]\<close>.\<close>

definition hasProperty :: "jsobject \<Rightarrow> string \<Rightarrow> bool" where
  "hasProperty obj k = (lookup obj k \<noteq> None)"

definition getProperty :: "jsobject \<Rightarrow> string \<Rightarrow> jsread" where
  "getProperty obj k = (case lookup obj k of None \<Rightarrow> Value JUndefined | Some r \<Rightarrow> r)"

text \<open>
  \<open>obj[key] = value\<close>. An own property is overwritten in place. Otherwise the assignment
  creates an own property, unless the key is \<open>__proto__\<close> and the chain leads to the
  accessor of \<open>Object.prototype\<close> (it does unless the prototype is \<open>null\<close>, or is an object
  with a property \<open>__proto__\<close> of its own): then the setter runs, which replaces the
  prototype when the value is \<open>null\<close>, an object or an array, and does nothing otherwise.
\<close>

definition accessorReachable :: "prototype \<Rightarrow> bool" where
  "accessorReachable p =
     (case p of
        NoPrototype \<Rightarrow> False
      | ObjectPrototype \<Rightarrow> True
      | ObjectValue kvs \<Rightarrow> map_of kvs ''__proto__'' = None
      | ArrayValue xs \<Rightarrow> True)"

definition setProperty :: "jsobject \<Rightarrow> string \<Rightarrow> jsvalue \<Rightarrow> jsobject" where
  "setProperty obj k v =
     (if map_of (own obj) k \<noteq> None then obj\<lparr>own := AList.update k v (own obj)\<rparr>
      else if k = ''__proto__'' \<and> accessorReachable (prototype obj) then
        (case v of
           JNull \<Rightarrow> obj\<lparr>prototype := NoPrototype\<rparr>
         | JObj kvs \<Rightarrow> obj\<lparr>prototype := ObjectValue kvs\<rparr>
         | JArr xs \<Rightarrow> obj\<lparr>prototype := ArrayValue xs\<rparr>
         | _ \<Rightarrow> obj)
      else obj\<lparr>own := AList.update k v (own obj)\<rparr>)"

text \<open>\<open>delete obj[key]\<close> removes an own property and nothing else.\<close>

definition deleteProperty :: "jsobject \<Rightarrow> string \<Rightarrow> jsobject" where
  "deleteProperty obj k = obj\<lparr>own := AList.delete k (own obj)\<rparr>"

text \<open>
  \<open>Object.keys(obj)\<close>: the own keys that are array indices (decimal numbers below
  \<open>2^32 - 1\<close>) in ascending order, then the other own keys in the order of creation.
\<close>

definition keyIndex :: "string \<Rightarrow> nat option" where
  "keyIndex k =
     (let n = foldl (\<lambda>a c. a * 10 + (of_char c - 48)) 0 k
      in if k \<noteq> [] \<and> list_all (\<lambda>c. c \<in> set ''0123456789'') k \<and> showNat n = k \<and> n < 4294967295
         then Some n else None)"

definition objectKeys :: "jsobject \<Rightarrow> string list" where
  "objectKeys obj =
     map showNat (sort (List.map_filter keyIndex (map fst (own obj))))
     @ filter (\<lambda>k. keyIndex k = None) (map fst (own obj))"

text \<open>
  \<open>obj.hasOwnProperty(key)\<close> calls whatever the property \<open>hasOwnProperty\<close> of the object
  is: the function of \<open>Object.prototype\<close> when it is inherited, and otherwise a value that
  cannot be called, which raises a \<open>TypeError\<close>.
\<close>

definition callHasOwnProperty :: "jsobject \<Rightarrow> string \<Rightarrow> error + bool" where
  "callHasOwnProperty obj k =
     (case lookup obj ''hasOwnProperty'' of
        Some (NativeFunction f) \<Rightarrow> Inr (map_of (own obj) k \<noteq> None)
      | _ \<Rightarrow> Inl TypeError)"

subsection \<open>MemoryStorage.js on a plain object\<close>

text \<open>
  The table of a store is the object whose own properties are \<open>data\<close> and whose prototype
  is kept beside the store.
\<close>

definition tableOf :: "SharedStore \<Rightarrow> prototype \<Rightarrow> jsobject" where
  "tableOf s p = \<lparr>own = data s, prototype = p\<rparr>"

text \<open>
  \<open>JSON.stringify\<close> of what a read gave (\<open>None\<close> is the result \<open>undefined\<close>, which a
  function gives; \<open>Object.prototype\<close> has no enumerable property and prints as \<open>{}\<close>), and
  \<open>JSON.parse(JSON.stringify(item))\<close>, which raises a \<open>SyntaxError\<close> when there is no text
  to parse.
\<close>

definition stringifyRead :: "jsread \<Rightarrow> string option" where
  "stringifyRead item =
     (case item of
        Value v \<Rightarrow> stringify v
      | NativeFunction f \<Rightarrow> None
      | ObjectPrototypeItself \<Rightarrow> Some ''{}'')"

definition parseStringifyRead :: "jsread \<Rightarrow> error + jsread" where
  "parseStringifyRead item =
     (case item of
        Value v \<Rightarrow> if v = JUndefined then Inl SyntaxError else Inr (Value (parseStringify v))
      | NativeFunction f \<Rightarrow> Inl SyntaxError
      | ObjectPrototypeItself \<Rightarrow> Inr (Value (JObj [])))"

definition MemoryStorage_has_js :: "MemoryStorage \<Rightarrow> SharedStore \<Rightarrow> prototype \<Rightarrow> string \<Rightarrow> bool" where
  "MemoryStorage_has_js this s p k = hasProperty (tableOf s p) k"

definition MemoryStorage_get_js ::
  "MemoryStorage \<Rightarrow> SharedStore \<Rightarrow> prototype \<Rightarrow> string \<Rightarrow> error + jsread" where
  "MemoryStorage_get_js this s p k =
     (if \<not> MemoryStorage_has_js this s p k then Inr (Value JNull)
      else (let item = getProperty (tableOf s p) k in
            if stringifyStoredValues this \<noteq> False \<and> item \<noteq> Value JUndefined
            then parseStringifyRead item
            else Inr item))"

text \<open>
  \<open>set\<close> and \<open>delete\<close> first read the previous value, and raise what that read raises
  before they change anything. Otherwise they return the store, the prototype of its
  table and the calls made to listeners.
\<close>

definition MemoryStorage_set_js ::
  "MemoryStorage \<Rightarrow> SharedStore \<Rightarrow> prototype \<Rightarrow> string \<Rightarrow> jsvalue \<Rightarrow>
   error + (SharedStore \<times> prototype \<times> (listener \<times> jsread change) list)" where
  "MemoryStorage_set_js this s p k v =
     (case MemoryStorage_get_js this s p k of
        Inl e \<Rightarrow> Inl e
      | Inr prev \<Rightarrow>
          (let t = setProperty (tableOf s p) k v;
               s' = s\<lparr>data := own t\<rparr>
           in Inr (s', prototype t,
                   triggerExternalChangeListeners this s'
                     \<lparr>key = k, value' = v, prevValue = prev\<rparr>)))"

definition MemoryStorage_delete_js ::
  "MemoryStorage \<Rightarrow> SharedStore \<Rightarrow> prototype \<Rightarrow> string \<Rightarrow>
   error + (SharedStore \<times> prototype \<times> (listener \<times> jsread change) list)" where
  "MemoryStorage_delete_js this s p k =
     (case MemoryStorage_get_js this s p k of
        Inl e \<Rightarrow> Inl e
      | Inr prev \<Rightarrow>
          (let t = deleteProperty (tableOf s p) k;
               s' = s\<lparr>data := own t\<rparr>
           in Inr (s', prototype t,
                   triggerExternalChangeListeners this s'
                     \<lparr>key = k, value' = JNull, prevValue = prev\<rparr>)))"

definition MemoryStorage_keys_js :: "MemoryStorage \<Rightarrow> SharedStore \<Rightarrow> prototype \<Rightarrow> string list" where
  "MemoryStorage_keys_js this s p = objectKeys (tableOf s p)"

text \<open>
  \<open>getRecordSize\<close>: \<open>JSON.stringify(value).length\<close> raises a \<open>TypeError\<close> when
  \<open>JSON.stringify\<close> returns \<open>undefined\<close>.
\<close>

definition MemoryStorage_getRecordSize ::
  "MemoryStorage \<Rightarrow> SharedStore \<Rightarrow> prototype \<Rightarrow> string \<Rightarrow> error + nat" where
  "MemoryStorage_getRecordSize this s p k =
     (if \<not> MemoryStorage_has_js this s p k then Inr 0
      else (let size0 = length k; v = getProperty (tableOf s p) k in
            if v \<noteq> Value JNull \<and> v \<noteq> Value JUndefined then
              (case stringifyRead v of
                 None \<Rightarrow> Inl TypeError
               | Some t \<Rightarrow> Inr ((size0 + length t) * 2))
            else Inr (size0 * 2)))"

subsection \<open>CachedStorage.js on plain objects\<close>

text \<open>
  The state with the two objects as JavaScript has them: the fields of \<open>world\<close>, where
  \<open>cache\<close> and \<open>data\<close> list the own properties of the buffer and of the table, and the
  prototypes of the two. Calls to user callbacks are recorded in \<open>notified_js\<close>. A method
  returns the state it leaves and the exception it raised, if any: a method that raises
  half-way leaves its earlier effects behind.
\<close>

record jsWorld =
  world :: World
  dataPrototype :: prototype
  cachePrototype :: prototype
  notified_js :: "(listener \<times> jsread change) list"

definition cacheObject :: "jsWorld \<Rightarrow> jsobject" where
  "cacheObject w = \<lparr>own = cache (cachedStorage (world w)), prototype = cachePrototype w\<rparr>"

definition setCacheObject :: "jsobject \<Rightarrow> jsWorld \<Rightarrow> jsWorld" where
  "setCacheObject obj w =
     w\<lparr>world := (world w)\<lparr>cachedStorage := (cachedStorage (world w))\<lparr>cache := own obj\<rparr>\<rparr>,
       cachePrototype := prototype obj\<rparr>"

definition storage_set_js :: "string \<Rightarrow> jsvalue \<Rightarrow> jsWorld \<Rightarrow> jsWorld \<times> error option" where
  "storage_set_js k v w =
     (case MemoryStorage_set_js (storage (cachedStorage (world w))) (sharedStore (world w))
             (dataPrototype w) k v of
        Inl e \<Rightarrow> (w, Some e)
      | Inr r \<Rightarrow>
          (w\<lparr>world := (world w)\<lparr>sharedStore := fst r\<rparr>, dataPrototype := fst (snd r),
             notified_js := notified_js w @ snd (snd r)\<rparr>, None))"

definition storage_delete_js :: "string \<Rightarrow> jsWorld \<Rightarrow> jsWorld \<times> error option" where
  "storage_delete_js k w =
     (case MemoryStorage_delete_js (storage (cachedStorage (world w))) (sharedStore (world w))
             (dataPrototype w) k of
        Inl e \<Rightarrow> (w, Some e)
      | Inr r \<Rightarrow>
          (w\<lparr>world := (world w)\<lparr>sharedStore := fst r\<rparr>, dataPrototype := fst (snd r),
             notified_js := notified_js w @ snd (snd r)\<rparr>, None))"

text \<open>
  \<open>flush\<close>. The loop runs over \<open>Object.keys(this.cache)\<close>, which are own keys, so
  \<open>this.cache[key]\<close> is the own value; it stops at the first write that raises. After the
  loop \<open>this.cache = {}\<close> is a new object, whose prototype is \<open>Object.prototype\<close> again.
\<close>

fun flushLoop_js :: "string list \<Rightarrow> jsWorld \<Rightarrow> jsWorld \<times> error option" where
  "flushLoop_js [] w = (w, None)"
| "flushLoop_js (k # ks) w =
     (case storage_set_js k (data_get k (cache (cachedStorage (world w)))) w of
        (w', Some e) \<Rightarrow> (w', Some e)
      | (w', None) \<Rightarrow> flushLoop_js ks w')"

definition flush_js :: "jsWorld \<Rightarrow> jsWorld \<times> error option" where
  "flush_js w =
     (case flushLoop_js (objectKeys (cacheObject w)) w of
        (w1, Some e) \<Rightarrow> (w1, Some e)
      | (w1, None) \<Rightarrow>
          (let w2 = setCacheObject emptyObject w1;
               c2 = (cachedStorage (world w2))\<lparr>previouslyFlushedAt := now (timer (world w2))\<rparr>
           in (case flushTimer c2 of
                 None \<Rightarrow> w2\<lparr>world := (world w2)\<lparr>cachedStorage := c2\<rparr>\<rparr>
               | Some h \<Rightarrow>
                   if truthy (Some h)
                   then w2\<lparr>world := (world w2)\<lparr>timer := Timer_cancel h (timer (world w2)),
                                             cachedStorage := c2\<lparr>flushTimer := None\<rparr>\<rparr>\<rparr>
                   else w2\<lparr>world := (world w2)\<lparr>cachedStorage := c2\<rparr>\<rparr>),
              None))"

definition CachedStorage_set_js :: "string \<Rightarrow> jsvalue \<Rightarrow> jsWorld \<Rightarrow> jsWorld \<times> error option" where
  "CachedStorage_set_js k v w =
     (if v = JUndefined then storage_delete_js k w
      else (case shouldCache (world w) k of
              Inl e \<Rightarrow> (w, Some e)
            | Inr b \<Rightarrow>
                if b then
                  (let w1 = setCacheObject (setProperty (cacheObject w) k v) w
                   in (w1\<lparr>world := scheduleFlush (world w1)\<rparr>, None))
                else storage_set_js k v w))"

definition CachedStorage_delete_js :: "string \<Rightarrow> jsWorld \<Rightarrow> jsWorld \<times> error option" where
  "CachedStorage_delete_js k w =
     (case callHasOwnProperty (cacheObject w) k of
        Inl e \<Rightarrow> (w, Some e)
      | Inr b \<Rightarrow>
          storage_delete_js k
            (if b then setCacheObject (deleteProperty (cacheObject w) k) w else w))"

definition CachedStorage_keys_js :: "jsWorld \<Rightarrow> string list" where
  "CachedStorage_keys_js w =
     MemoryStorage_keys_js (storage (cachedStorage (world w))) (sharedStore (world w))
       (dataPrototype w)"

definition CachedStorage_getRecordSize :: "jsWorld \<Rightarrow> string \<Rightarrow> error + nat" where
  "CachedStorage_getRecordSize w k =
     (case callHasOwnProperty (cacheObject w) k of
        Inl e \<Rightarrow> Inl e
      | Inr b \<Rightarrow>
          if b then
            (case stringifyRead (getProperty (cacheObject w) k) of
               None \<Rightarrow> Inl TypeError
             | Some t \<Rightarrow> Inr (length t))
          else MemoryStorage_getRecordSize (storage (cachedStorage (world w)))
                 (sharedStore (world w)) (dataPrototype w) k)"

definition CachedStorage_has_js :: "jsWorld \<Rightarrow> string \<Rightarrow> error + bool" where
  "CachedStorage_has_js w k =
     (case callHasOwnProperty (cacheObject w) k of
        Inl e \<Rightarrow> Inl e
      | Inr b \<Rightarrow>
          Inr (b \<or> MemoryStorage_has_js (storage (cachedStorage (world w)))
                     (sharedStore (world w)) (dataPrototype w) k))"


text \<open>
  The listener that \<open>start\<close> registers. \<open>Object.keys(this.cache).includes(key)\<close> holds for
  own keys only, so \<open>this.cache[key]\<close> is the own value and the assignment overwrites it.
\<close>

definition externalChangeHandler_js :: "'p change \<Rightarrow> jsWorld \<Rightarrow> jsWorld \<times> error option" where
  "externalChangeHandler_js c w =
     (if key c \<in> set (objectKeys (cacheObject w)) then
        (if value' c = JNull then
           (setCacheObject (deleteProperty (cacheObject w) (key c)) w, None)
         else
           (case merge (cachedStorage (world w)) of
              Some m \<Rightarrow>
                flush_js
                  (setCacheObject
                     (setProperty (cacheObject w) (key c)
                        (m (key c) (data_get (key c) (cache (cachedStorage (world w))))
                           (value' c)))
                     w)
            | None \<Rightarrow> (setCacheObject (deleteProperty (cacheObject w) (key c)) w, None)))
      else (w, None))"

definition start_js :: "jsWorld \<Rightarrow> jsWorld \<times> error option" where
  "start_js w =
     (case start (world w) of
        Inl e \<Rightarrow> (w, Some e)
      | Inr w' \<Rightarrow> (w\<lparr>world := w'\<rparr>, None))"

text \<open>
  \<open>stop\<close>. Where \<open>stopListeningToExternalChanges\<close> is \<open>undefined\<close>, calling it raises a
  \<open>TypeError\<close>.
\<close>

definition stop_js :: "jsWorld \<Rightarrow> jsWorld \<times> error option" where
  "stop_js w =
     (if \<not> isStarted (cachedStorage (world w)) then (w, Some NotStarted)
      else (case flush_js (w\<lparr>world := (world w)\<lparr>cachedStorage :=
                                (cachedStorage (world w))\<lparr>isStarted := False\<rparr>\<rparr>\<rparr>) of
              (w1, Some e) \<Rightarrow> (w1, Some e)
            | (w1, None) \<Rightarrow>
                (let w2 = w1\<lparr>world := (world w1)\<lparr>tabStatusWatcher :=
                                 (tabStatusWatcher (world w1))\<lparr>watching := False\<rparr>\<rparr>\<rparr>
                 in (case stopListeningToExternalChanges (cachedStorage (world w2)) of
                       None \<Rightarrow> (w2, Some TypeError)
                     | Some l \<Rightarrow>
                         (w2\<lparr>world := (world w2)\<lparr>sharedStore :=
                                  unsubscribe l (sharedStore (world w2))\<rparr>\<rparr>, None)))))"

subsection \<open>Histories of one CachedStorage\<close>


text \<open>
  The world right after the constructor: the buffer is a new object, the timer has
  nothing armed and will give \<open>h\<close> as its first handle, the watcher is not started; the
  store \<open>s\<close> with the prototype \<open>p\<close> of its table, the time \<open>t\<close> and the tab's activity \<open>a\<close>
  are whatever they are at that moment.
\<close>

definition World_new ::
  "CachedStorage \<Rightarrow> SharedStore \<Rightarrow> prototype \<Rightarrow> nat \<Rightarrow> nat \<Rightarrow> bool \<Rightarrow> jsWorld" where
  "World_new this s p t h a =
     \<lparr>world =
        \<lparr>cachedStorage = this, sharedStore = s, timer = Timer_new t h,
         tabStatusWatcher = \<lparr>active = a, watching = False\<rparr>, notified = [],
         handlersCreated = 0\<rparr>,
      dataPrototype = p, cachePrototype = ObjectPrototype, notified_js = []\<rparr>"

text \<open>
  What can happen to the instance: calls of its methods, the tab changing its activity
  (on becoming inactive the watcher calls the registered \<open>flush\<close>), time passing (armed
  timers that fall due fire), and other code using the shared store directly: writing
  through some \<open>MemoryStorage\<close> instance, or registering and removing user callbacks.
\<close>

datatype event =
    Call_set string jsvalue
  | Call_delete string
  | Call_flush
  | Call_cacheKey string
  | Call_start
  | Call_stop
  | Call_onExternalChange nat
  | Tab_setActive bool
  | Time_passes nat
  | Other_set MemoryStorage string jsvalue
  | Other_delete MemoryStorage string
  | Other_onExternalChange MemoryStorage nat
  | Other_unsubscribe nat

text \<open>
  The calls that a \<open>set\<close> or \<open>delete\<close> of another instance makes, carried out in order: a
  user callback is recorded, the handler of the \<open>CachedStorage\<close> runs. A handler that
  raises ends the loop, and the write that notified it raises too.
\<close>

fun deliver :: "(listener \<times> jsread change) list \<Rightarrow> jsWorld \<Rightarrow> jsWorld \<times> error option" where
  "deliver [] w = (w, None)"
| "deliver (x # xs) w =
     (case fst x of
        ExternalChangeHandler n \<Rightarrow>
          (case externalChangeHandler_js (snd x) w of
             (w', Some e) \<Rightarrow> (w', Some e)
           | (w', None) \<Rightarrow> deliver xs w')
      | UserCallback n \<Rightarrow> deliver xs (w\<lparr>notified_js := notified_js w @ [x]\<rparr>))"

text \<open>
  A timer that fires is no longer armed; its callback is \<open>flush\<close>, and what \<open>flush\<close> raises
  there is caught by nobody.
\<close>

fun fire :: "nat list \<Rightarrow> jsWorld \<Rightarrow> jsWorld" where
  "fire [] w = w"
| "fire (h # hs) w =
     fire hs
       (if h \<in> set (map fst (scheduled (timer (world w))))
        then fst (flush_js (w\<lparr>world := (world w)\<lparr>timer := Timer_cancel h (timer (world w))\<rparr>\<rparr>))
        else w)"

definition timePasses :: "nat \<Rightarrow> jsWorld \<Rightarrow> jsWorld" where
  "timePasses n w =
     (let t = (timer (world w))\<lparr>now := now (timer (world w)) + n\<rparr>
      in fire (map fst (filter (\<lambda>e. snd e \<le> now t) (scheduled t)))
           (w\<lparr>world := (world w)\<lparr>timer := t\<rparr>\<rparr>))"

definition otherWrite ::
  "error + (SharedStore \<times> prototype \<times> (listener \<times> jsread change) list) \<Rightarrow> jsWorld \<Rightarrow>
   jsWorld \<times> error option" where
  "otherWrite r w =
     (case r of
        Inl e \<Rightarrow> (w, Some e)
      | Inr x \<Rightarrow>
          deliver (snd (snd x))
            (w\<lparr>world := (world w)\<lparr>sharedStore := fst x\<rparr>, dataPrototype := fst (snd x)\<rparr>))"

definition step :: "event \<Rightarrow> jsWorld \<Rightarrow> jsWorld \<times> error option" where
  "step e w =
     (case e of
        Call_set k v \<Rightarrow> CachedStorage_set_js k v w
      | Call_delete k \<Rightarrow> CachedStorage_delete_js k w
      | Call_flush \<Rightarrow> flush_js w
      | Call_cacheKey pattern \<Rightarrow> (w\<lparr>world := cacheKey pattern (world w)\<rparr>, None)
      | Call_start \<Rightarrow> start_js w
      | Call_stop \<Rightarrow> stop_js w
      | Call_onExternalChange n \<Rightarrow>
          (w\<lparr>world := CachedStorage_onExternalChange (UserCallback n) (world w)\<rparr>, None)
      | Tab_setActive b \<Rightarrow>
          (let w1 = w\<lparr>world := (world w)\<lparr>tabStatusWatcher :=
                          (tabStatusWatcher (world w))\<lparr>active := b\<rparr>\<rparr>\<rparr>
           in if b then (w1, None) else flush_js w1)
      | Time_passes n \<Rightarrow> (timePasses n w, None)
      | Other_set that k v \<Rightarrow>
          otherWrite (MemoryStorage_set_js that (sharedStore (world w)) (dataPrototype w) k v) w
      | Other_delete that k \<Rightarrow>
          otherWrite (MemoryStorage_delete_js that (sharedStore (world w)) (dataPrototype w) k) w
      | Other_onExternalChange that n \<Rightarrow>
          (w\<lparr>world := (world w)\<lparr>sharedStore :=
               fst (MemoryStorage_onExternalChange that (sharedStore (world w))
                      (UserCallback n))\<rparr>\<rparr>, None)
      | Other_unsubscribe n \<Rightarrow>
          (w\<lparr>world := (world w)\<lparr>sharedStore :=
               unsubscribe (UserCallback n) (sharedStore (world w))\<rparr>\<rparr>, None))"

text \<open>A history: whoever calls goes on from the state that the call left, raised or not.\<close>

fun run :: "event list \<Rightarrow> jsWorld \<Rightarrow> jsWorld" where
  "run [] w = w"
| "run (e # es) w = run es (fst (step e w))"

text \<open>
  The keys at which an untouched plain object is a dictionary: all but the names that
  \<open>Object.prototype\<close> gives to every object.
\<close>

definition ordinaryKey :: "string \<Rightarrow> bool" where
  "ordinaryKey k = (k \<noteq> ''__proto__'' \<and> k \<notin> set objectPrototypeNames)"


section \<open>Theorems\<close>

subsection \<open>The pattern matcher\<close>

lemma indexOfChar_ge: "indexOfChar s c \<ge> - 1"
  by (induction s) (auto simp: Let_def)

lemma indexOfChar_absent: "indexOfChar s c < 0 \<longleftrightarrow> c \<notin> set s"
proof (induction s)
  case Nil
  show ?case by simp
next
  case (Cons x xs)
  have "indexOfChar xs c \<ge> - 1" by (rule indexOfChar_ge)
  with Cons show ?case by (auto simp: Let_def)
qed

lemma indexOfChar_first:
  "c \<notin> set pre \<Longrightarrow> indexOfChar (pre @ c # rest) c = int (length pre)"
  by (induction pre) (auto simp: Let_def)

lemma indexOf_ge: "indexOf s sub \<ge> - 1"
  by (induction s) (auto simp: Let_def)

lemma indexOf_zero: "indexOf s sub = 0 \<longleftrightarrow> prefix sub s"
proof (cases s)
  case Nil
  then show ?thesis by auto
next
  case (Cons x xs)
  have ge: "indexOf xs sub \<ge> - 1" by (rule indexOf_ge)
  have "take (length sub) (x # xs) = sub \<longleftrightarrow> prefix sub (x # xs)"
    by (metis append_eq_conv_conj prefix_def take_is_prefix)
  with ge Cons show ?thesis by (auto simp: Let_def)
qed

lemma asterisk_split:
  assumes "CHR ''*'' \<in> set p"
  shows "\<exists>pre rest. p = pre @ CHR ''*'' # rest \<and> CHR ''*'' \<notin> set pre"
  using assms by (meson split_list_first)

lemma matchesPattern_no_asterisk:
  "CHR ''*'' \<notin> set pattern \<Longrightarrow> matchesPattern v pattern = Inr (v = pattern)"
  using indexOfChar_absent [of pattern "CHR ''*''"] by (simp add: matchesPattern_def Let_def)

lemma matchesPattern_split:
  assumes "CHR ''*'' \<notin> set pre"
  shows "matchesPattern v (pre @ CHR ''*'' # rest) =
           (if rest = [] then Inr (prefix pre v) else Inl (InvalidPattern (pre @ CHR ''*'' # rest)))"
  using indexOfChar_first [OF assms, of rest]
  by (simp add: matchesPattern_def Let_def indexOf_zero)

text \<open>
  C8. A pattern without an asterisk matches exactly itself. A pattern whose only asterisk
  is its last character matches the strings that start with what precedes the asterisk.
  The matcher raises, and then it raises \<open>InvalidPattern\<close>, if and only if the pattern has an
  asterisk and is not of that form (an asterisk before the end, or more than one). In
  particular \<open>ab*\<close> matches \<open>ab\<close>, \<open>abc\<close> and \<open>abcd\<close>, and \<open>abc*\<close> does not match \<open>ab\<close>.
\<close>

theorem matchesPattern_spec:
  "(CHR ''*'' \<notin> set pattern \<longrightarrow> matchesPattern v pattern = Inr (v = pattern)) \<and>
   (\<forall>pre. pattern = pre @ ''*'' \<and> CHR ''*'' \<notin> set pre \<longrightarrow>
      matchesPattern v pattern = Inr (prefix pre v)) \<and>
   ((\<exists>e. matchesPattern v pattern = Inl e) \<longleftrightarrow>
      (CHR ''*'' \<in> set pattern \<and> \<not> (\<exists>pre. pattern = pre @ ''*'' \<and> CHR ''*'' \<notin> set pre))) \<and>
   (\<forall>e. matchesPattern v pattern = Inl e \<longrightarrow> e = InvalidPattern pattern) \<and>
   matchesPattern ''ab'' ''ab*'' = Inr True \<and>
   matchesPattern ''abc'' ''ab*'' = Inr True \<and>
   matchesPattern ''abcd'' ''ab*'' = Inr True \<and>
   matchesPattern ''ab'' ''abc*'' = Inr False"
proof (intro conjI)
  show "CHR ''*'' \<notin> set pattern \<longrightarrow> matchesPattern v pattern = Inr (v = pattern)"
    by (simp add: matchesPattern_no_asterisk)
  show "\<forall>pre. pattern = pre @ ''*'' \<and> CHR ''*'' \<notin> set pre \<longrightarrow>
      matchesPattern v pattern = Inr (prefix pre v)"
    by (auto simp: matchesPattern_split)
  show "(\<exists>e. matchesPattern v pattern = Inl e) \<longleftrightarrow>
      (CHR ''*'' \<in> set pattern \<and> \<not> (\<exists>pre. pattern = pre @ ''*'' \<and> CHR ''*'' \<notin> set pre))"
  proof (cases "CHR ''*'' \<in> set pattern")
    case False
    then show ?thesis by (simp add: matchesPattern_no_asterisk)
  next
    case True
    then obtain pre rest where p: "pattern = pre @ CHR ''*'' # rest" "CHR ''*'' \<notin> set pre"
      using asterisk_split by blast
    show ?thesis
    proof (cases "rest = []")
      case True
      with p show ?thesis by (auto simp: matchesPattern_split)
    next
      case False
      have "\<not> (\<exists>pre'. pattern = pre' @ ''*'' \<and> CHR ''*'' \<notin> set pre')"
      proof
        assume "\<exists>pre'. pattern = pre' @ ''*'' \<and> CHR ''*'' \<notin> set pre'"
        then obtain pre' where q: "pre @ CHR ''*'' # rest = pre' @ [CHR ''*'']"
          "CHR ''*'' \<notin> set pre'" using p by auto
        from False obtain r rs where "rest = rs @ [r]" by (metis rev_exhaust)
        with q have "pre' = pre @ CHR ''*'' # rs" by simp
        with q show False by simp
      qed
      with p False show ?thesis by (auto simp: matchesPattern_split)
    qed
  qed
  show "\<forall>e. matchesPattern v pattern = Inl e \<longrightarrow> e = InvalidPattern pattern"
    by (auto simp: matchesPattern_def Let_def split: if_splits)
  show "matchesPattern ''ab'' ''ab*'' = Inr True"
    by (simp add: matchesPattern_def Let_def)
  show "matchesPattern ''abc'' ''ab*'' = Inr True"
    by (simp add: matchesPattern_def Let_def)
  show "matchesPattern ''abcd'' ''ab*'' = Inr True"
    by (simp add: matchesPattern_def Let_def)
  show "matchesPattern ''ab'' ''abc*'' = Inr False"
    by (simp add: matchesPattern_def Let_def)
qed

theorem matchesPattern_spec_witness:
  "matchesPattern ''cached-key'' ''cached-key'' = Inr True \<and>
   matchesPattern ''cached-key'' ''cached-*'' = Inr True \<and>
   matchesPattern ''other'' ''cached-*'' = Inr False \<and>
   matchesPattern ''abc'' ''a*bc'' = Inl (InvalidPattern ''a*bc'') \<and>
   matchesPattern ''abc'' ''ab**'' = Inl (InvalidPattern ''ab**'')"
proof -
  have a: "matchesPattern ''cached-key'' ''cached-key'' = Inr True"
    using matchesPattern_spec [of "''cached-key''" "''cached-key''"] by simp
  have b: "matchesPattern ''cached-key'' ''cached-*'' = Inr True"
    using matchesPattern_spec [of "''cached-*''" "''cached-key''"] by simp
  have c: "matchesPattern ''other'' ''cached-*'' = Inr False"
    using matchesPattern_spec [of "''cached-*''" "''other''"] by simp
  have d: "matchesPattern ''abc'' ''a*bc'' = Inl (InvalidPattern ''a*bc'')"
    using matchesPattern_spec [of "''a*bc''" "''abc''"] by auto
  have e: "matchesPattern ''abc'' ''ab**'' = Inl (InvalidPattern ''ab**'')"
    using matchesPattern_spec [of "''ab**''" "''abc''"] by auto
  from a b c d e show ?thesis by simp
qed

subsection \<open>MemoryStorage: the table and the external-change bus\<close>

lemma stringify_None: "stringify v = None \<longleftrightarrow> v = JUndefined"
  by (cases v) auto

lemma data_has_update: "data_has k (AList.update k' v d) \<longleftrightarrow> k = k' \<or> data_has k d"
  by (simp add: data_has_def update_conv')

lemma data_get_update: "data_get k (AList.update k' v d) = (if k = k' then v else data_get k d)"
  by (simp add: data_get_def update_conv')

lemma data_has_delete: "data_has k (AList.delete k' d) \<longleftrightarrow> k \<noteq> k' \<and> data_has k d"
  by (auto simp add: data_has_def delete_conv')

lemma data_get_delete: "data_get k (AList.delete k' d) = (if k = k' then JUndefined else data_get k d)"
  by (simp add: data_get_def delete_conv')

lemma data_has_keys: "data_has k d \<longleftrightarrow> k \<in> set (map fst d)"
  by (simp add: data_has_def map_of_eq_None_iff)

lemma set_data: "data (fst (MemoryStorage_set this s k v)) = AList.update k v (data s)"
  by (simp add: MemoryStorage_set_def Let_def)

lemma set_listeners: "externalChangeListeners (fst (MemoryStorage_set this s k v)) = externalChangeListeners s"
  by (simp add: MemoryStorage_set_def Let_def)

lemma delete_data: "data (fst (MemoryStorage_delete this s k)) = AList.delete k (data s)"
  by (simp add: MemoryStorage_delete_def Let_def)

lemma delete_listeners: "externalChangeListeners (fst (MemoryStorage_delete this s k)) = externalChangeListeners s"
  by (simp add: MemoryStorage_delete_def Let_def)

lemma keys_has: "k \<in> set (MemoryStorage_keys this s) \<longleftrightarrow> MemoryStorage_has this s k"
  by (simp add: MemoryStorage_keys_def MemoryStorage_has_def data_has_keys)

lemma notifyLoop_filter:
  "notifyLoop i c rs =
     map (\<lambda>r. (listener r, c)) (filter (\<lambda>r. storageId r \<noteq> None \<and> storageId r \<noteq> Some i) rs)"
  by (induction rs) (auto split: option.splits)

lemma trigger_filter:
  "triggerExternalChangeListeners this s c =
     map (\<lambda>r. (listener r, c))
       (filter (\<lambda>r. id' this \<noteq> None \<and> storageId r \<noteq> None \<and> storageId r \<noteq> id' this)
          (externalChangeListeners s))"
  by (cases "id' this") (simp_all add: triggerExternalChangeListeners_def notifyLoop_filter)

lemma set_calls:
  "snd (MemoryStorage_set this s k v) =
     triggerExternalChangeListeners this s \<lparr>key = k, value' = v, prevValue = MemoryStorage_get this s k\<rparr>"
  by (simp add: MemoryStorage_set_def Let_def triggerExternalChangeListeners_def split: option.splits)

lemma delete_calls:
  "snd (MemoryStorage_delete this s k) =
     triggerExternalChangeListeners this s \<lparr>key = k, value' = JNull, prevValue = MemoryStorage_get this s k\<rparr>"
  by (simp add: MemoryStorage_delete_def Let_def triggerExternalChangeListeners_def split: option.splits)


text \<open>
  C4. A \<open>set\<close> or a \<open>delete\<close> through an instance calls exactly the listeners of the
  registrations whose identity is present and differs from the instance's own, in
  registration order, and only when the instance has an identity itself. So an instance
  without identity triggers no listener, a registration made through an instance without
  identity never fires, and a listener whose registrations are all under the writer's
  identity (or under none) is not called.
\<close>

theorem external_change_bus:
  "snd (MemoryStorage_set this s k v) =
     map (\<lambda>r. (listener r, \<lparr>key = k, value' = v, prevValue = MemoryStorage_get this s k\<rparr>))
       (filter (\<lambda>r. id' this \<noteq> None \<and> storageId r \<noteq> None \<and> storageId r \<noteq> id' this)
          (externalChangeListeners s)) \<and>
   snd (MemoryStorage_delete this s k) =
     map (\<lambda>r. (listener r, \<lparr>key = k, value' = JNull, prevValue = MemoryStorage_get this s k\<rparr>))
       (filter (\<lambda>r. id' this \<noteq> None \<and> storageId r \<noteq> None \<and> storageId r \<noteq> id' this)
          (externalChangeListeners s)) \<and>
   (id' this = None \<longrightarrow>
      snd (MemoryStorage_set this s k v) = [] \<and> snd (MemoryStorage_delete this s k) = []) \<and>
   (\<forall>l. (\<forall>r \<in> set (externalChangeListeners s).
           listener r = l \<longrightarrow> storageId r = id' this \<or> storageId r = None) \<longrightarrow>
        l \<notin> fst ` set (snd (MemoryStorage_set this s k v)) \<and>
        l \<notin> fst ` set (snd (MemoryStorage_delete this s k)))"
  unfolding set_calls delete_calls trigger_filter
  by (auto simp: filter_empty_conv)

theorem external_change_bus_witness:
  "snd (MemoryStorage_set \<lparr>id' = Some ''1'', stringifyStoredValues = True\<rparr>
         \<lparr>data = [],
          externalChangeListeners =
            [\<lparr>storageId = None, listener = UserCallback 0\<rparr>,
             \<lparr>storageId = Some ''1'', listener = UserCallback 1\<rparr>,
             \<lparr>storageId = Some ''2'', listener = UserCallback 2\<rparr>]\<rparr>
         ''key'' (JStr ''value''))
     = [(UserCallback 2, \<lparr>key = ''key'', value' = JStr ''value'', prevValue = JNull\<rparr>)] \<and>
   snd (MemoryStorage_set \<lparr>id' = None, stringifyStoredValues = True\<rparr>
         \<lparr>data = [],
          externalChangeListeners =
            [\<lparr>storageId = None, listener = UserCallback 0\<rparr>,
             \<lparr>storageId = Some ''1'', listener = UserCallback 1\<rparr>,
             \<lparr>storageId = Some ''2'', listener = UserCallback 2\<rparr>]\<rparr>
         ''key'' (JStr ''value'')) = [] \<and>
   UserCallback 1 \<notin> fst ` set (snd (MemoryStorage_delete \<lparr>id' = Some ''1'', stringifyStoredValues = True\<rparr>
         \<lparr>data = [],
          externalChangeListeners =
            [\<lparr>storageId = None, listener = UserCallback 0\<rparr>,
             \<lparr>storageId = Some ''1'', listener = UserCallback 1\<rparr>,
             \<lparr>storageId = Some ''2'', listener = UserCallback 2\<rparr>]\<rparr>
         ''key''))"
proof -
  let ?s = "\<lparr>data = [],
          externalChangeListeners =
            [\<lparr>storageId = None, listener = UserCallback 0\<rparr>,
             \<lparr>storageId = Some ''1'', listener = UserCallback 1\<rparr>,
             \<lparr>storageId = Some ''2'', listener = UserCallback 2\<rparr>]\<rparr>"
  let ?one = "\<lparr>id' = Some ''1'', stringifyStoredValues = True\<rparr>"
  let ?none = "\<lparr>id' = None, stringifyStoredValues = True\<rparr>"
  have g: "MemoryStorage_get ?one ?s ''key'' = JNull"
    by (simp add: MemoryStorage_get_def MemoryStorage_has_def data_has_def)
  have a: "snd (MemoryStorage_set ?one ?s ''key'' (JStr ''value''))
     = [(UserCallback 2, \<lparr>key = ''key'', value' = JStr ''value'', prevValue = JNull\<rparr>)]"
    using external_change_bus [of ?one ?s "''key''" "JStr ''value''"] g by simp
  have b: "snd (MemoryStorage_set ?none ?s ''key'' (JStr ''value'')) = []"
    using external_change_bus [of ?none ?s "''key''" "JStr ''value''"] by simp
  have c: "UserCallback 1 \<notin> fst ` set (snd (MemoryStorage_delete ?one ?s ''key''))"
    using external_change_bus [of ?one ?s "''key''" "JStr ''value''"] by simp
  from a b c show ?thesis by blast
qed

text \<open>
  C6. \<open>onExternalChange(listener)\<close> registers the pair (own identity, listener), and the
  returned function should remove that one registration. It does not: it filters the
  shared registry on the listener alone. After the instance "1" registers a function that
  is already registered under "2" and then unsubscribes, the registration under "2" is
  gone too, and a write through "1" calls nobody.
\<close>

theorem unsubscribe_exact_pair_counterexample:
  "\<lparr>storageId = Some ''2'', listener = UserCallback 0\<rparr>
     \<in> set (externalChangeListeners
              (fst (MemoryStorage_onExternalChange \<lparr>id' = Some ''1'', stringifyStoredValues = True\<rparr>
                     \<lparr>data = [], externalChangeListeners =
                        [\<lparr>storageId = Some ''2'', listener = UserCallback 0\<rparr>]\<rparr>
                     (UserCallback 0)))) \<and>
   \<lparr>storageId = Some ''2'', listener = UserCallback 0\<rparr> \<noteq>
     \<lparr>storageId = Some ''1'', listener = UserCallback 0\<rparr> \<and>
   \<lparr>storageId = Some ''2'', listener = UserCallback 0\<rparr>
     \<notin> set (externalChangeListeners
              (snd (MemoryStorage_onExternalChange \<lparr>id' = Some ''1'', stringifyStoredValues = True\<rparr>
                     \<lparr>data = [], externalChangeListeners =
                        [\<lparr>storageId = Some ''2'', listener = UserCallback 0\<rparr>]\<rparr>
                     (UserCallback 0))
                (fst (MemoryStorage_onExternalChange \<lparr>id' = Some ''1'', stringifyStoredValues = True\<rparr>
                     \<lparr>data = [], externalChangeListeners =
                        [\<lparr>storageId = Some ''2'', listener = UserCallback 0\<rparr>]\<rparr>
                     (UserCallback 0))))) \<and>
   snd (MemoryStorage_set \<lparr>id' = Some ''1'', stringifyStoredValues = True\<rparr>
          (snd (MemoryStorage_onExternalChange \<lparr>id' = Some ''1'', stringifyStoredValues = True\<rparr>
                     \<lparr>data = [], externalChangeListeners =
                        [\<lparr>storageId = Some ''2'', listener = UserCallback 0\<rparr>]\<rparr>
                     (UserCallback 0))
                (fst (MemoryStorage_onExternalChange \<lparr>id' = Some ''1'', stringifyStoredValues = True\<rparr>
                     \<lparr>data = [], externalChangeListeners =
                        [\<lparr>storageId = Some ''2'', listener = UserCallback 0\<rparr>]\<rparr>
                     (UserCallback 0))))
          ''key'' (JStr ''value'')) = []"
  by (simp add: MemoryStorage_onExternalChange_def unsubscribe_def MemoryStorage_set_def Let_def
      triggerExternalChangeListeners_def)

subsection \<open>CachedStorage: what a flush does to the world\<close>

lemma storage_set_fields [simp]:
  "cachedStorage (storage_set k v w) = cachedStorage w"
  "timer (storage_set k v w) = timer w"
  "tabStatusWatcher (storage_set k v w) = tabStatusWatcher w"
  "handlersCreated (storage_set k v w) = handlersCreated w"
  "data (sharedStore (storage_set k v w)) = AList.update k v (data (sharedStore w))"
  "externalChangeListeners (sharedStore (storage_set k v w)) = externalChangeListeners (sharedStore w)"
  by (simp_all add: storage_set_def Let_def set_data set_listeners)

lemma storage_delete_fields [simp]:
  "cachedStorage (storage_delete k w) = cachedStorage w"
  "timer (storage_delete k w) = timer w"
  "tabStatusWatcher (storage_delete k w) = tabStatusWatcher w"
  "handlersCreated (storage_delete k w) = handlersCreated w"
  "data (sharedStore (storage_delete k w)) = AList.delete k (data (sharedStore w))"
  "externalChangeListeners (sharedStore (storage_delete k w)) = externalChangeListeners (sharedStore w)"
  by (simp_all add: storage_delete_def Let_def delete_data delete_listeners)

lemma flushLoop_fields [simp]:
  "cachedStorage (flushLoop ks w) = cachedStorage w"
  "timer (flushLoop ks w) = timer w"
  "tabStatusWatcher (flushLoop ks w) = tabStatusWatcher w"
  "handlersCreated (flushLoop ks w) = handlersCreated w"
  "externalChangeListeners (sharedStore (flushLoop ks w)) = externalChangeListeners (sharedStore w)"
  by (induction ks arbitrary: w; simp)+

lemma flushLoop_data:
  "map_of (data (sharedStore (flushLoop ks w))) k =
     (if k \<in> set ks then Some (data_get k (cache (cachedStorage w)))
      else map_of (data (sharedStore w)) k)"
  by (induction ks arbitrary: w) (auto simp: update_conv')

lemma flush_cache [simp]: "cache (cachedStorage (flush w)) = []"
  by (simp add: flush_def Let_def truthy_def split: option.splits)

lemma flush_frame [simp]:
  "tabStatusWatcher (flush w) = tabStatusWatcher w"
  "handlersCreated (flush w) = handlersCreated w"
  "externalChangeListeners (sharedStore (flush w)) = externalChangeListeners (sharedStore w)"
  "storage (cachedStorage (flush w)) = storage (cachedStorage w)"
  "merge (cachedStorage (flush w)) = merge (cachedStorage w)"
  "cachedKeys (cachedStorage (flush w)) = cachedKeys (cachedStorage w)"
  "isStarted (cachedStorage (flush w)) = isStarted (cachedStorage w)"
  "now (timer (flush w)) = now (timer w)"
  by (simp_all add: flush_def Let_def truthy_def Timer_cancel_def split: option.splits)

lemma flush_sharedStore:
  "sharedStore (flush w) = sharedStore (flushLoop (map fst (cache (cachedStorage w))) w)"
  by (simp add: flush_def Let_def truthy_def split: option.splits)

lemma flush_notified:
  "notified (flush w) = notified (flushLoop (map fst (cache (cachedStorage w))) w)"
  by (simp add: flush_def Let_def truthy_def split: option.splits)

lemma flush_data:
  "map_of (data (sharedStore (flush w))) k =
     (if data_has k (cache (cachedStorage w)) then Some (data_get k (cache (cachedStorage w)))
      else map_of (data (sharedStore w)) k)"
  by (simp add: flush_sharedStore flushLoop_data data_has_keys)

lemma flush_data_get:
  "data_has k (cache (cachedStorage w)) \<Longrightarrow>
     data_get k (data (sharedStore (flush w))) = data_get k (cache (cachedStorage w))"
  by (simp add: data_get_def flush_data)



subsection \<open>CachedStorage: reconciliation and flushing\<close>






lemma MemoryStorage_get_absent:
  "\<not> MemoryStorage_has this s k \<Longrightarrow> MemoryStorage_get this s k = JNull"
  by (simp add: MemoryStorage_get_def)

subsection \<open>Writing \<open>undefined\<close>\<close>

text \<open>
  C2. \<open>CachedStorage.set(key, undefined)\<close> is \<open>this.storage.delete(key)\<close> and nothing
  else. For a key that is not buffered this is \<open>CachedStorage.delete(key)\<close>, after which
  \<open>has(key)\<close> is false and \<open>get(key)\<close> is \<open>null\<close>. For a buffered key it is not: the
  buffered entry stays, so \<open>has(key)\<close> is true, \<open>get(key)\<close> returns the buffered value,
  and the next \<open>flush\<close> writes that value back to the backend. \<open>MemoryStorage.set(key,
  undefined)\<close> does not delete either: it stores \<open>undefined\<close> as an entry, so \<open>has(key)\<close>
  is true and \<open>get(key)\<close> is \<open>undefined\<close>, where \<open>delete(key)\<close> gives false and \<open>null\<close>.
\<close>

theorem set_undefined_is_not_delete:
  "CachedStorage_set k JUndefined w = Inr (storage_delete k w) \<and>
   (data_has k (cache (cachedStorage w)) \<longrightarrow>
      CachedStorage_has (storage_delete k w) k \<and>
      CachedStorage_get (storage_delete k w) k = data_get k (cache (cachedStorage w)) \<and>
      data_get k (data (sharedStore (flush (storage_delete k w)))) =
        data_get k (cache (cachedStorage w))) \<and>
   (\<not> data_has k (cache (cachedStorage w)) \<longrightarrow>
      storage_delete k w = CachedStorage_delete k w) \<and>
   \<not> CachedStorage_has (CachedStorage_delete k w) k \<and>
   CachedStorage_get (CachedStorage_delete k w) k = JNull \<and>
   MemoryStorage_has this (fst (MemoryStorage_set this s k JUndefined)) k \<and>
   MemoryStorage_get this (fst (MemoryStorage_set this s k JUndefined)) k = JUndefined \<and>
   \<not> MemoryStorage_has this (fst (MemoryStorage_delete this s k)) k \<and>
   MemoryStorage_get this (fst (MemoryStorage_delete this s k)) k = JNull"
proof (intro conjI impI)
  show "CachedStorage_set k JUndefined w = Inr (storage_delete k w)"
    by (simp add: CachedStorage_set_def)
next
  assume b: "data_has k (cache (cachedStorage w))"
  then show "CachedStorage_has (storage_delete k w) k"
    "CachedStorage_get (storage_delete k w) k = data_get k (cache (cachedStorage w))"
    by (simp_all add: CachedStorage_has_def CachedStorage_get_def)
  from b have "data_has k (cache (cachedStorage (storage_delete k w)))" by simp
  from flush_data_get [OF this]
  show "data_get k (data (sharedStore (flush (storage_delete k w)))) =
        data_get k (cache (cachedStorage w))" by simp
next
  assume "\<not> data_has k (cache (cachedStorage w))"
  then show "storage_delete k w = CachedStorage_delete k w"
    by (simp add: CachedStorage_delete_def)
next
  show "\<not> CachedStorage_has (CachedStorage_delete k w) k"
    by (simp add: CachedStorage_has_def CachedStorage_delete_def MemoryStorage_has_def
        data_has_delete)
  then show "CachedStorage_get (CachedStorage_delete k w) k = JNull"
    by (simp add: CachedStorage_has_def CachedStorage_get_def MemoryStorage_get_absent)
next
  show "MemoryStorage_has this (fst (MemoryStorage_set this s k JUndefined)) k"
    by (simp add: MemoryStorage_has_def set_data data_has_update)
  show "MemoryStorage_get this (fst (MemoryStorage_set this s k JUndefined)) k = JUndefined"
    by (simp add: MemoryStorage_get_def MemoryStorage_has_def set_data data_has_update
        data_get_update)
  show "\<not> MemoryStorage_has this (fst (MemoryStorage_delete this s k)) k"
    by (simp add: MemoryStorage_has_def delete_data data_has_delete)
  then show "MemoryStorage_get this (fst (MemoryStorage_delete this s k)) k = JNull"
    by (rule MemoryStorage_get_absent)
qed

theorem set_undefined_is_not_delete_witness:
  "CachedStorage_set ''cached-key'' JUndefined mergeTest
     = Inr (storage_delete ''cached-key'' mergeTest) \<and>
   CachedStorage_has (storage_delete ''cached-key'' mergeTest) ''cached-key'' \<and>
   CachedStorage_get (storage_delete ''cached-key'' mergeTest) ''cached-key'' = JStr ''One'' \<and>
   data_get ''cached-key'' (data (sharedStore (flush (storage_delete ''cached-key'' mergeTest))))
     = JStr ''One'' \<and>
   \<not> CachedStorage_has (CachedStorage_delete ''cached-key'' mergeTest) ''cached-key'' \<and>
   storage_delete ''non-cached-key'' mergeTest = CachedStorage_delete ''non-cached-key'' mergeTest"
proof -
  have a: "CachedStorage_set ''cached-key'' JUndefined mergeTest
     = Inr (storage_delete ''cached-key'' mergeTest) \<and>
   CachedStorage_has (storage_delete ''cached-key'' mergeTest) ''cached-key'' \<and>
   CachedStorage_get (storage_delete ''cached-key'' mergeTest) ''cached-key'' = JStr ''One'' \<and>
   data_get ''cached-key'' (data (sharedStore (flush (storage_delete ''cached-key'' mergeTest))))
     = JStr ''One'' \<and>
   \<not> CachedStorage_has (CachedStorage_delete ''cached-key'' mergeTest) ''cached-key''"
    using set_undefined_is_not_delete [of "''cached-key''" mergeTest]
    by (simp add: mergeTest_def data_has_def data_get_def)
  have b: "storage_delete ''non-cached-key'' mergeTest
             = CachedStorage_delete ''non-cached-key'' mergeTest"
    using set_undefined_is_not_delete [of "''non-cached-key''" mergeTest]
    by (simp add: mergeTest_def data_has_def)
  from a b show ?thesis by blast
qed

subsection \<open>CachedStorage: which writes are buffered\<close>


lemma scheduleFlush_frame [simp]:
  "sharedStore (scheduleFlush w) = sharedStore w"
  "notified (scheduleFlush w) = notified w"
  "tabStatusWatcher (scheduleFlush w) = tabStatusWatcher w"
  "handlersCreated (scheduleFlush w) = handlersCreated w"
  "cache (cachedStorage (scheduleFlush w)) = cache (cachedStorage w)"
  "storage (cachedStorage (scheduleFlush w)) = storage (cachedStorage w)"
  by (simp_all add: scheduleFlush_def Let_def)

subsection \<open>Plain objects: where they are dictionaries\<close>

lemma keyIndex_Some: "keyIndex k = Some n \<Longrightarrow> showNat n = k"
  by (simp add: keyIndex_def Let_def split: if_splits)

lemma set_map_filter:
  "set (List.map_filter f xs) = {y. \<exists>x \<in> set xs. f x = Some y}"
  by (induction xs) (auto split: option.splits)

lemma objectKeys_set: "set (objectKeys obj) = set (map fst (own obj))"
proof (intro set_eqI iffI)
  fix k
  assume "k \<in> set (objectKeys obj)"
  then consider n k' where "k = showNat n" "k' \<in> set (map fst (own obj))" "keyIndex k' = Some n"
    | "k \<in> set (map fst (own obj))"
    by (auto simp: objectKeys_def set_map_filter)
  then show "k \<in> set (map fst (own obj))"
  proof cases
    case 1
    then show ?thesis using keyIndex_Some [of k' n] by simp
  next
    case 2
    then show ?thesis .
  qed
next
  fix k
  assume a: "k \<in> set (map fst (own obj))"
  show "k \<in> set (objectKeys obj)"
  proof (cases "keyIndex k")
    case None
    with a show ?thesis by (simp add: objectKeys_def)
  next
    case (Some n)
    then have "showNat n = k" by (rule keyIndex_Some)
    moreover from a Some have "n \<in> set (List.map_filter keyIndex (map fst (own obj)))"
      by (force simp: set_map_filter)
    ultimately show ?thesis by (auto simp: objectKeys_def image_iff)
  qed
qed

lemma lookup_own:
  "map_of (own obj) k = Some v \<Longrightarrow> lookup obj k = Some (Value v)"
  by (simp add: lookup_def)

lemma lookup_ordinary:
  "ordinaryKey k \<Longrightarrow> prototype obj = ObjectPrototype \<Longrightarrow>
     lookup obj k = map_option Value (map_of (own obj) k)"
  by (simp add: lookup_def inherited_def fromObjectPrototype_def ordinaryKey_def
      split: option.splits)

lemma setProperty_plain:
  "k \<noteq> ''__proto__'' \<or> map_of (own obj) k \<noteq> None \<or> \<not> accessorReachable (prototype obj) \<Longrightarrow>
     setProperty obj k v = obj\<lparr>own := AList.update k v (own obj)\<rparr>"
  by (auto simp: setProperty_def)




subsection \<open>MemoryStorage at the keys of \<open>Object.prototype\<close>\<close>

lemma get_js_absent:
  "\<not> MemoryStorage_has_js this s p k \<Longrightarrow> MemoryStorage_get_js this s p k = Inr (Value JNull)"
  by (simp add: MemoryStorage_get_js_def)

lemma stored_null_js:
  assumes "MemoryStorage_set_js this s p k JNull = Inr (s', p', calls)"
    and "k \<noteq> ''__proto__'' \<or> map_of (data s) k \<noteq> None \<or> \<not> accessorReachable p"
  shows "MemoryStorage_has_js this s' p' k \<and> k \<in> set (MemoryStorage_keys_js this s' p') \<and>
         MemoryStorage_get_js this s' p' k = Inr (Value JNull)"
proof -
  from assms(2) have sp: "setProperty (tableOf s p) k JNull =
      (tableOf s p)\<lparr>own := AList.update k JNull (data s)\<rparr>"
    using setProperty_plain [of k "tableOf s p" JNull] by (simp add: tableOf_def)
  from assms(1) sp have s': "data s' = AList.update k JNull (data s)" "p' = p"
    by (auto simp: MemoryStorage_set_js_def Let_def tableOf_def split: sum.splits)
  then have own: "map_of (data s') k = Some JNull" by (simp add: update_conv')
  then have l: "lookup (tableOf s' p') k = Some (Value JNull)"
    by (simp add: lookup_def tableOf_def)
  from own have "k \<in> set (map fst (data s'))" by (metis map_of_eq_None_iff option.distinct(1) set_map)
  then have "k \<in> set (MemoryStorage_keys_js this s' p')"
    by (simp add: MemoryStorage_keys_js_def objectKeys_set tableOf_def)
  with l show ?thesis
    by (simp add: MemoryStorage_has_js_def hasProperty_def MemoryStorage_get_js_def
        getProperty_def parseStringifyRead_def Let_def)
qed

text \<open>
  C10. After \<open>set(key, null)\<close> on a \<open>MemoryStorage\<close>, \<open>has(key)\<close> should be true and
  \<open>keys()\<close> should list the key, while \<open>get(key)\<close> returns \<open>null\<close> as it does for an absent
  key. That holds at every key where the assignment makes an own property (lemma
  \<open>stored_null_js\<close>). It fails at \<open>__proto__\<close>: on a new store \<open>set('__proto__', null)\<close>
  returns normally, but it has set the prototype of the table to \<open>null\<close> and stored
  nothing, so \<open>has('__proto__')\<close> is false and \<open>keys()\<close> is empty. At \<open>toString\<close>, which
  \<open>has\<close> finds in the prototype of the empty table, \<open>set\<close> raises a \<open>SyntaxError\<close> from the
  read of the previous value.
\<close>

theorem stored_null_at_prototype_keys:
  "MemoryStorage_set_js \<lparr>id' = None, stringifyStoredValues = True\<rparr>
     \<lparr>data = [], externalChangeListeners = []\<rparr> ObjectPrototype ''__proto__'' JNull
     = Inr (\<lparr>data = [], externalChangeListeners = []\<rparr>, NoPrototype, []) \<and>
   \<not> MemoryStorage_has_js \<lparr>id' = None, stringifyStoredValues = True\<rparr>
       \<lparr>data = [], externalChangeListeners = []\<rparr> NoPrototype ''__proto__'' \<and>
   MemoryStorage_keys_js \<lparr>id' = None, stringifyStoredValues = True\<rparr>
       \<lparr>data = [], externalChangeListeners = []\<rparr> NoPrototype = [] \<and>
   MemoryStorage_has_js \<lparr>id' = None, stringifyStoredValues = True\<rparr>
       \<lparr>data = [], externalChangeListeners = []\<rparr> ObjectPrototype ''toString'' \<and>
   MemoryStorage_set_js \<lparr>id' = None, stringifyStoredValues = True\<rparr>
     \<lparr>data = [], externalChangeListeners = []\<rparr> ObjectPrototype ''toString'' JNull
     = Inl SyntaxError"
  by (simp add: MemoryStorage_set_js_def MemoryStorage_get_js_def MemoryStorage_has_js_def
      MemoryStorage_keys_js_def hasProperty_def getProperty_def lookup_def inherited_def
      fromObjectPrototype_def prototypeValue_def tableOf_def parseStringifyRead_def
      setProperty_def accessorReachable_def objectKeys_def objectPrototypeNames_def Let_def
      triggerExternalChangeListeners_def)

lemma getRecordSize_cases:
  assumes "ordinaryKey k"
  shows
  "(map_of (data s) k = None \<longrightarrow> MemoryStorage_getRecordSize this s ObjectPrototype k = Inr 0) \<and>
   (map_of (data s) k = Some JNull \<or> map_of (data s) k = Some JUndefined \<longrightarrow>
      MemoryStorage_getRecordSize this s ObjectPrototype k = Inr (2 * length k)) \<and>
   (\<forall>v t. map_of (data s) k = Some v \<and> v \<noteq> JNull \<and> stringify v = Some t \<longrightarrow>
      MemoryStorage_getRecordSize this s ObjectPrototype k = Inr (2 * (length k + length t)))"
  using assms
  by (auto simp: MemoryStorage_getRecordSize_def MemoryStorage_has_js_def hasProperty_def
      getProperty_def tableOf_def lookup_ordinary stringifyRead_def Let_def)

lemma CachedStorage_getRecordSize_cases:
  "(\<forall>t. callHasOwnProperty (cacheObject w) k = Inr True \<and>
        stringify (data_get k (cache (cachedStorage (world w)))) = Some t \<longrightarrow>
        CachedStorage_getRecordSize w k = Inr (length t)) \<and>
   (callHasOwnProperty (cacheObject w) k = Inr False \<longrightarrow>
        CachedStorage_getRecordSize w k =
          MemoryStorage_getRecordSize (storage (cachedStorage (world w))) (sharedStore (world w))
            (dataPrototype w) k)"
  by (auto simp: CachedStorage_getRecordSize_def callHasOwnProperty_def getProperty_def
      lookup_def cacheObject_def data_get_def stringifyRead_def
      split: option.splits jsread.splits)

text \<open>
  C7. \<open>getRecordSize(key)\<close> of a \<open>MemoryStorage\<close> should be 0 for an absent key and
  otherwise twice the sum of the lengths of the key and of the JSON text of the stored
  value. On a new, empty store it is 22 for the key \<open>__proto__\<close> and raises a \<open>TypeError\<close>
  for the key \<open>toString\<close>: the test \<open>key in this._data\<close> finds both in the prototype. For
  a stored \<open>null\<close>, whose JSON text has four characters, it is twice the length of the key
  alone (2 for the key \<open>k\<close>, not 10). Elsewhere the formula holds (lemmas
  \<open>getRecordSize_cases\<close> and \<open>CachedStorage_getRecordSize_cases\<close>), as for the record that
  MemoryStorage.test.js measures (24).
\<close>

theorem getRecordSize_at_prototype_keys_and_null:
  "map_of (data \<lparr>data = [], externalChangeListeners = []\<rparr>) ''__proto__'' = None \<and>
   MemoryStorage_getRecordSize \<lparr>id' = None, stringifyStoredValues = True\<rparr>
     \<lparr>data = [], externalChangeListeners = []\<rparr> ObjectPrototype ''__proto__'' = Inr 22 \<and>
   MemoryStorage_getRecordSize \<lparr>id' = None, stringifyStoredValues = True\<rparr>
     \<lparr>data = [], externalChangeListeners = []\<rparr> ObjectPrototype ''toString'' = Inl TypeError \<and>
   stringify JNull = Some ''null'' \<and>
   MemoryStorage_getRecordSize \<lparr>id' = None, stringifyStoredValues = True\<rparr>
     \<lparr>data = [(''k'', JNull)], externalChangeListeners = []\<rparr> ObjectPrototype ''k'' = Inr 2 \<and>
   MemoryStorage_getRecordSize \<lparr>id' = None, stringifyStoredValues = True\<rparr>
     \<lparr>data = [(''key'', JObj [(''a'', JStr ''b'')])], externalChangeListeners = []\<rparr>
     ObjectPrototype ''key'' = Inr 24"
  by (simp add: MemoryStorage_getRecordSize_def MemoryStorage_has_js_def hasProperty_def
      getProperty_def lookup_def inherited_def fromObjectPrototype_def prototypeValue_def
      tableOf_def stringifyRead_def objectPrototypeNames_def Let_def quoteJSONString_def
      quoteChar_def)

subsection \<open>CachedStorage: where a write goes\<close>







end
